theory Spec2Isabelle
  imports Main
begin

section \<open>Fetch Metadata request filtering (package secfetch)\<close>

text \<open>
  A shallow embedding of \<^verbatim>\<open>secfetch.go\<close>: the decision predicate \<^verbatim>\<open>allowed\<close> and the two
  handler wrappers \<^verbatim>\<open>ProtectHandler\<close> and \<^verbatim>\<open>ProtectHandlerLogOnly\<close>.
\<close>

subsection \<open>Requests and header lookup\<close>

text \<open>
  Go's \<^verbatim>\<open>http.Header\<close> is a \<^verbatim>\<open>map[string][]string\<close>; a nil map reads as the empty map.
  Of \<^verbatim>\<open>http.Request\<close> the record keeps the method and the header, which the package
  reads, and the target and the body as two fields the package never looks at. Every further
  field of the Go struct lives in the record's extension.
\<close>

type_synonym header = "string \<rightharpoonup> string list"

record Request =
  Method :: string
  URL :: string
  Header :: header
  Body :: string

text \<open>
  \<^verbatim>\<open>Header.Get\<close> belongs to Go's standard library (\<^verbatim>\<open>net/http\<close>, \<^verbatim>\<open>net/textproto\<close>), not
  to the package. It is modelled after the library's documentation and code: the key is
  canonicalised (first letter and every letter after a dash in upper case, every other letter
  in lower case, the key left alone when it holds a byte that is no token character), and the
  first value stored under the canonical key is returned, or the empty string when there is
  none.
\<close>

definition isLowerByte :: "char \<Rightarrow> bool" where
  "isLowerByte c = (97 \<le> (of_char c :: nat) \<and> (of_char c :: nat) \<le> 122)"

definition isUpperByte :: "char \<Rightarrow> bool" where
  "isUpperByte c = (65 \<le> (of_char c :: nat) \<and> (of_char c :: nat) \<le> 90)"

definition isDigitByte :: "char \<Rightarrow> bool" where
  "isDigitByte c = (48 \<le> (of_char c :: nat) \<and> (of_char c :: nat) \<le> 57)"

definition validHeaderFieldByte :: "char \<Rightarrow> bool" where
  "validHeaderFieldByte c =
     (isLowerByte c \<or> isUpperByte c \<or> isDigitByte c \<or>
      (of_char c :: nat) \<in> {33, 35, 36, 37, 38, 39, 42, 43, 45, 46, 94, 95, 96, 124, 126})"

fun canonicalBytes :: "bool \<Rightarrow> string \<Rightarrow> string" where
  "canonicalBytes upper [] = []"
| "canonicalBytes upper (c # cs) =
     (let c' = (if upper \<and> isLowerByte c then char_of ((of_char c :: nat) - 32)
                else if \<not> upper \<and> isUpperByte c then char_of ((of_char c :: nat) + 32)
                else c)
      in c' # canonicalBytes (c' = CHR ''-'') cs)"

definition CanonicalMIMEHeaderKey :: "string \<Rightarrow> string" where
  "CanonicalMIMEHeaderKey s =
     (if list_all validHeaderFieldByte s then canonicalBytes True s else s)"

definition Get :: "header \<Rightarrow> string \<Rightarrow> string" where
  "Get h key =
     (case h (CanonicalMIMEHeaderKey key) of
        None \<Rightarrow> []
      | Some [] \<Rightarrow> []
      | Some (v # _) \<Rightarrow> v)"

subsection \<open>The decision predicate\<close>

definition allowed :: "'a Request_scheme \<Rightarrow> bool" where
  "allowed r =
     (let site = Get (Header r) ''sec-fetch-site'';
          mode = Get (Header r) ''sec-fetch-mode''
      in if site = [] \<or> site = ''none'' \<or> site = ''same-site'' \<or> site = ''same-origin''
         then True
         else if mode = ''navigate'' \<and> Method r = ''GET''
         then True
         else False)"

subsection \<open>The requests built by the package's tests\<close>

text \<open>
  \<^verbatim>\<open>Header.Set\<close> (standard library) replaces the values stored under the canonical key by
  the single given value. The tests build every request with \<^verbatim>\<open>httptest.NewRequest\<close> on the
  target \<^verbatim>\<open>/\<close>, give it the body \<^verbatim>\<open>body\<close> when the method is POST, and set both headers.
\<close>

definition Set :: "header \<Rightarrow> string \<Rightarrow> string \<Rightarrow> header" where
  "Set h key v = h(CanonicalMIMEHeaderKey key \<mapsto> [v])"

definition testRequest :: "string \<Rightarrow> string \<Rightarrow> string \<Rightarrow> Request" where
  "testRequest method site mode =
     \<lparr>Method = method, URL = ''/'',
      Header = Set (Set Map.empty ''sec-fetch-site'' site) ''sec-fetch-mode'' mode,
      Body = (if method = ''POST'' then ''body'' else [])\<rparr>"

text \<open>
  The tests' table \<^verbatim>\<open>checkTests\<close>: name, site, mode, method and the expected decision.
\<close>

definition checkTests :: "(string \<times> string \<times> string \<times> string \<times> bool) list" where
  "checkTests =
     [(''no headers'', [], [], ''POST'', True),
      (''ua initiated'', ''none'', [], ''GET'', True),
      (''cors bug missing mode'', ''cross-site'', [], ''OPTIONS'', True),
      (''same site'', ''same-site'', ''websocket'', ''HEAD'', True),
      (''same origin'', ''same-origin'', ''unrecognized'', ''POST'', True),
      (''cross origin nested navigate'', ''cross-site'', ''nested-navigate'', ''GET'', True),
      (''cross origin head navigate'', ''cross-site'', ''navigate'', ''HEAD'', True),
      (''cross origin navigate'', ''cross-site'', ''navigate'', ''GET'', True),
      (''cross origin form submission'', ''cross-site'', ''navigate'', ''POST'', False),
      (''cross origin no cors'', ''cross-site'', ''no-cors'', ''GET'', False),
      (''cross origin cors'', ''cross-site'', ''cors'', ''POST'', False)]"

text \<open>
  The set of site values that the first rule of \<^verbatim>\<open>allowed\<close> lets through, and a byte-wise
  lower-casing used only to say that two header values differ in letter case alone.
\<close>

definition permissiveSites :: "string set" where
  "permissiveSites = {[], ''none'', ''same-site'', ''same-origin''}"

definition toLowerByte :: "char \<Rightarrow> char" where
  "toLowerByte c = (if isUpperByte c then char_of ((of_char c :: nat) + 32) else c)"

subsection \<open>Handlers and the two wrappers\<close>

text \<open>
  The three Go interfaces are records of operations on a state \<open>'s\<close>, which stands for
  everything a call may change: the response under construction, the logger's store and
  whatever else the wrapped handler touches. \<^verbatim>\<open>http.ResponseWriter\<close> is used by the package
  through \<^verbatim>\<open>WriteHeader\<close> and \<^verbatim>\<open>Write\<close> alone; \<^verbatim>\<open>http.HandlerFunc\<close> turns a function into
  a handler whose \<^verbatim>\<open>ServeHTTP\<close> calls it. The request is handed on by reference in Go; here
  it is a value, so its contents are taken as unchanged during the call.
\<close>

record 's ResponseWriter =
  WriteHeader :: "nat \<Rightarrow> 's \<Rightarrow> 's"
  Write :: "string \<Rightarrow> 's \<Rightarrow> 's"

record 's Handler =
  ServeHTTP :: "'s ResponseWriter \<Rightarrow> Request \<Rightarrow> 's \<Rightarrow> 's"

record 's RequestLogger =
  LogRequest :: "Request \<Rightarrow> 's \<Rightarrow> 's"

definition HandlerFunc :: "('s ResponseWriter \<Rightarrow> Request \<Rightarrow> 's \<Rightarrow> 's) \<Rightarrow> 's Handler" where
  "HandlerFunc f = \<lparr>ServeHTTP = f\<rparr>"

definition StatusForbidden :: nat where
  "StatusForbidden = 403"

text \<open>
  \<^verbatim>\<open>fmt.Fprintln\<close> with one string operand writes the string followed by a newline, in one
  call of \<^verbatim>\<open>Write\<close>; the package ignores what it returns.
\<close>

definition Fprintln :: "'s ResponseWriter \<Rightarrow> string \<Rightarrow> 's \<Rightarrow> 's" where
  "Fprintln w a s = Write w (a @ [CHR 0x0A]) s"

definition ProtectHandler :: "'s Handler \<Rightarrow> 's Handler" where
  "ProtectHandler h =
     HandlerFunc (\<lambda>w r s.
       if \<not> allowed r
       then (let s1 = WriteHeader w StatusForbidden s;
                 s2 = Fprintln w ''Invalid resource access'' s1
             in s2)
       else ServeHTTP h w r s)"

definition ProtectHandlerLogOnly :: "'s Handler \<Rightarrow> 's RequestLogger \<Rightarrow> 's Handler" where
  "ProtectHandlerLogOnly h rl =
     HandlerFunc (\<lambda>w r s.
       let s1 = (if \<not> allowed r then LogRequest rl r s else s)
       in ServeHTTP h w r s1)"

subsection \<open>Recording collaborators\<close>

text \<open>
  To count calls, the state is taken to be the list of the calls made so far, and every
  collaborator appends the call it receives, in the way the tests' \<^verbatim>\<open>testRequestLogger\<close>
  appends each request to its slice.
\<close>

datatype call =
  WriteHeaderCall nat
| WriteCall string
| ServeHTTPCall Request
| LogRequestCall Request

definition recordingWriter :: "call list ResponseWriter" where
  "recordingWriter =
     \<lparr>WriteHeader = (\<lambda>code t. t @ [WriteHeaderCall code]),
      Write = (\<lambda>b t. t @ [WriteCall b])\<rparr>"

definition recordingHandler :: "call list Handler" where
  "recordingHandler = HandlerFunc (\<lambda>w r t. t @ [ServeHTTPCall r])"

definition recordingLogger :: "call list RequestLogger" where
  "recordingLogger = \<lparr>LogRequest = (\<lambda>r t. t @ [LogRequestCall r])\<rparr>"

text \<open>
  The handler that the tests wrap writes the constant \<^verbatim>\<open>User Data\<close> with \<^verbatim>\<open>fmt.Fprintf\<close>,
  which for a format without verbs and no operands is one \<^verbatim>\<open>Write\<close> of the format. The
  response seen by a client is made of the calls that reached the response writer.
\<close>

definition testHandler :: "'s Handler" where
  "testHandler = HandlerFunc (\<lambda>w r s. Write w ''User Data'' s)"

fun isWriterCall :: "call \<Rightarrow> bool" where
  "isWriterCall (WriteHeaderCall code) = True"
| "isWriterCall (WriteCall b) = True"
| "isWriterCall (ServeHTTPCall r) = False"
| "isWriterCall (LogRequestCall r) = False"

definition response :: "call list \<Rightarrow> call list" where
  "response t = filter isWriterCall t"

subsection \<open>Properties of the decision predicate\<close>

lemma canonical_site_key: "CanonicalMIMEHeaderKey ''sec-fetch-site'' = ''Sec-Fetch-Site''"
  by code_simp

lemma canonical_mode_key: "CanonicalMIMEHeaderKey ''sec-fetch-mode'' = ''Sec-Fetch-Mode''"
  by code_simp

lemma Get_site:
  "Get h ''sec-fetch-site'' =
     (case h ''Sec-Fetch-Site'' of None \<Rightarrow> [] | Some [] \<Rightarrow> [] | Some (v # _) \<Rightarrow> v)"
  unfolding Get_def canonical_site_key ..

lemma Get_mode:
  "Get h ''sec-fetch-mode'' =
     (case h ''Sec-Fetch-Mode'' of None \<Rightarrow> [] | Some [] \<Rightarrow> [] | Some (v # _) \<Rightarrow> v)"
  unfolding Get_def canonical_mode_key ..

lemma allowed_iff:
  "allowed r \<longleftrightarrow>
     Get (Header r) ''sec-fetch-site'' \<in> permissiveSites \<or>
     (Get (Header r) ''sec-fetch-mode'' = ''navigate'' \<and> Method r = ''GET'')"
  by (simp add: allowed_def permissiveSites_def Let_def)

lemma testRequest_site: "Get (Header (testRequest method site mode)) ''sec-fetch-site'' = site"
  by (simp add: testRequest_def Set_def Get_def canonical_site_key canonical_mode_key)

lemma testRequest_mode: "Get (Header (testRequest method site mode)) ''sec-fetch-mode'' = mode"
  by (simp add: testRequest_def Set_def Get_def canonical_site_key canonical_mode_key)

lemma testRequest_Method: "Method (testRequest method site mode) = method"
  by (simp add: testRequest_def)

lemma allowed_testRequest:
  "allowed (testRequest method site mode) \<longleftrightarrow>
     site \<in> permissiveSites \<or> (mode = ''navigate'' \<and> method = ''GET'')"
  by (simp add: allowed_iff testRequest_site testRequest_mode testRequest_Method)

text \<open>
  The decision of \<^verbatim>\<open>allowed\<close> differs from the expectation of the tests' table on three
  rows: the table expects a cross-site request without mode, a cross-site nested navigation
  and a cross-site HEAD navigation to pass, and \<^verbatim>\<open>allowed\<close> denies all three.
\<close>

lemma checkTests_disagreements:
  "[name. (name, site, mode, method, want) \<leftarrow> checkTests,
          allowed (testRequest method site mode) \<noteq> want] =
   [''cors bug missing mode'', ''cross origin nested navigate'', ''cross origin head navigate'']"
  by (simp add: checkTests_def allowed_testRequest permissiveSites_def)

text \<open>
  Claim C2. Whenever the value of the \<^verbatim>\<open>sec-fetch-site\<close> header is the empty string,
  \<^verbatim>\<open>none\<close>, \<^verbatim>\<open>same-site\<close> or \<^verbatim>\<open>same-origin\<close>, \<^verbatim>\<open>allowed\<close> returns true, whatever the
  \<^verbatim>\<open>sec-fetch-mode\<close> header and the method are.
\<close>

theorem allowed_permissive_site:
  assumes "Get (Header r) ''sec-fetch-site'' = [] \<or>
           Get (Header r) ''sec-fetch-site'' = ''none'' \<or>
           Get (Header r) ''sec-fetch-site'' = ''same-site'' \<or>
           Get (Header r) ''sec-fetch-site'' = ''same-origin''"
  shows "allowed r"
  using assms by (auto simp: allowed_iff permissiveSites_def)

theorem allowed_permissive_site_witness:
  "allowed (testRequest ''HEAD'' ''same-site'' ''websocket'') \<and>
   allowed (testRequest ''POST'' ''same-origin'' ''unrecognized'') \<and>
   allowed (testRequest ''GET'' ''none'' []) \<and>
   allowed (testRequest ''POST'' [] [])"
  using allowed_permissive_site [of "testRequest ''HEAD'' ''same-site'' ''websocket''"]
    allowed_permissive_site [of "testRequest ''POST'' ''same-origin'' ''unrecognized''"]
    allowed_permissive_site [of "testRequest ''GET'' ''none'' []"]
    allowed_permissive_site [of "testRequest ''POST'' [] []"]
  by (simp add: testRequest_site)

text \<open>
  Claim C3. Whenever the value of the \<^verbatim>\<open>sec-fetch-site\<close> header is none of the four
  permissive values, the \<^verbatim>\<open>sec-fetch-mode\<close> header is exactly \<^verbatim>\<open>navigate\<close> and the method
  is exactly \<^verbatim>\<open>GET\<close>, \<^verbatim>\<open>allowed\<close> returns true.
\<close>

theorem allowed_cross_site_get_navigation:
  assumes "Get (Header r) ''sec-fetch-site'' \<notin> {[], ''none'', ''same-site'', ''same-origin''}"
    and "Get (Header r) ''sec-fetch-mode'' = ''navigate''"
    and "Method r = ''GET''"
  shows "allowed r"
  using assms by (simp add: allowed_iff)

theorem allowed_cross_site_get_navigation_witness:
  "allowed (testRequest ''GET'' ''cross-site'' ''navigate'')"
  using allowed_cross_site_get_navigation [of "testRequest ''GET'' ''cross-site'' ''navigate''"]
  by (simp add: testRequest_site testRequest_mode testRequest_Method)

text \<open>
  Claim C1. Whenever the value of the \<^verbatim>\<open>sec-fetch-site\<close> header is none of the four
  permissive values and the request is not a GET navigation (the \<^verbatim>\<open>sec-fetch-mode\<close> header
  differs from \<^verbatim>\<open>navigate\<close>, or the method differs from \<^verbatim>\<open>GET\<close>), \<^verbatim>\<open>allowed\<close> returns
  false. A mode header that is missing or holds an unrecognised value differs from
  \<^verbatim>\<open>navigate\<close>, so such a request is denied.
\<close>

theorem allowed_denies_other_cross_site:
  assumes "Get (Header r) ''sec-fetch-site'' \<notin> {[], ''none'', ''same-site'', ''same-origin''}"
    and "\<not> (Get (Header r) ''sec-fetch-mode'' = ''navigate'' \<and> Method r = ''GET'')"
  shows "\<not> allowed r"
  using assms by (simp add: allowed_iff permissiveSites_def)

theorem allowed_denies_other_cross_site_witness:
  "\<not> allowed \<lparr>Method = ''GET'', URL = ''/'',
               Header = [''Sec-Fetch-Site'' \<mapsto> [''cross-site'']], Body = []\<rparr> \<and>
   \<not> allowed (testRequest ''GET'' ''cross-site'' ''unrecognized'') \<and>
   \<not> allowed (testRequest ''POST'' ''cross-site'' ''navigate'')"
proof (intro conjI)
  show "\<not> allowed \<lparr>Method = ''GET'', URL = ''/'',
                    Header = [''Sec-Fetch-Site'' \<mapsto> [''cross-site'']], Body = []\<rparr>"
    by (rule allowed_denies_other_cross_site) (simp_all add: Get_site Get_mode)
  show "\<not> allowed (testRequest ''GET'' ''cross-site'' ''unrecognized'')"
    by (rule allowed_denies_other_cross_site)
      (simp_all add: testRequest_site testRequest_mode)
  show "\<not> allowed (testRequest ''POST'' ''cross-site'' ''navigate'')"
    by (rule allowed_denies_other_cross_site)
      (simp_all add: testRequest_site testRequest_Method)
qed

text \<open>
  Claim C6. A request with \<^verbatim>\<open>sec-fetch-site\<close> equal to \<^verbatim>\<open>cross-site\<close>, \<^verbatim>\<open>sec-fetch-mode\<close>
  equal to \<^verbatim>\<open>navigate\<close> and method \<^verbatim>\<open>HEAD\<close> is denied: the navigation exemption holds
  for the method \<^verbatim>\<open>GET\<close> alone.
\<close>

theorem allowed_denies_cross_site_head_navigation:
  assumes "Get (Header r) ''sec-fetch-site'' = ''cross-site''"
    and "Get (Header r) ''sec-fetch-mode'' = ''navigate''"
    and "Method r = ''HEAD''"
  shows "\<not> allowed r"
  using assms by (simp add: allowed_iff permissiveSites_def)

theorem allowed_denies_cross_site_head_navigation_witness:
  "\<not> allowed (testRequest ''HEAD'' ''cross-site'' ''navigate'')"
  using allowed_denies_cross_site_head_navigation
          [of "testRequest ''HEAD'' ''cross-site'' ''navigate''"]
  by (simp add: testRequest_site testRequest_mode testRequest_Method)

text \<open>
  Claim C7. \<^verbatim>\<open>allowed\<close> has no failing path: the source only reads a map (a nil map reads
  as empty) and compares strings, so the embedding is a plain total function into \<open>bool\<close>.
  For all strings site, mode and method it returns the value of the decision table on the
  request carrying them. A header that is absent, or present with no value, is read as the
  empty string, and an absent site header makes \<^verbatim>\<open>allowed\<close> return true.
\<close>

theorem allowed_total_fail_open:
  "(allowed (testRequest method site mode) \<longleftrightarrow>
      site \<in> {[], ''none'', ''same-site'', ''same-origin''} \<or>
      (mode = ''navigate'' \<and> method = ''GET'')) \<and>
   (Header r ''Sec-Fetch-Site'' = None \<or> Header r ''Sec-Fetch-Site'' = Some [] \<longrightarrow>
      Get (Header r) ''sec-fetch-site'' = [] \<and> allowed r) \<and>
   (Header r ''Sec-Fetch-Mode'' = None \<or> Header r ''Sec-Fetch-Mode'' = Some [] \<longrightarrow>
      Get (Header r) ''sec-fetch-mode'' = [])"
proof (intro conjI impI)
  show "allowed (testRequest method site mode) \<longleftrightarrow>
      site \<in> {[], ''none'', ''same-site'', ''same-origin''} \<or>
      (mode = ''navigate'' \<and> method = ''GET'')"
    by (simp add: allowed_testRequest permissiveSites_def)
next
  assume absent: "Header r ''Sec-Fetch-Site'' = None \<or> Header r ''Sec-Fetch-Site'' = Some []"
  then show empty: "Get (Header r) ''sec-fetch-site'' = []"
    by (auto simp: Get_site)
  then show "allowed r"
    by (simp add: allowed_iff permissiveSites_def)
next
  assume "Header r ''Sec-Fetch-Mode'' = None \<or> Header r ''Sec-Fetch-Mode'' = Some []"
  then show "Get (Header r) ''sec-fetch-mode'' = []"
    by (auto simp: Get_mode)
qed

theorem allowed_total_fail_open_witness:
  "Get (Header \<lparr>Method = ''POST'', URL = ''/'', Header = Map.empty, Body = ''body''\<rparr>)
      ''sec-fetch-site'' = [] \<and>
   Get (Header \<lparr>Method = ''POST'', URL = ''/'', Header = Map.empty, Body = ''body''\<rparr>)
      ''sec-fetch-mode'' = [] \<and>
   allowed \<lparr>Method = ''POST'', URL = ''/'', Header = Map.empty, Body = ''body''\<rparr> \<and>
   \<not> allowed (testRequest ''DELETE'' ''cross-site'' ''cors'')"
  using allowed_total_fail_open
          [of "''DELETE''" "''cross-site''" "''cors''"
              "\<lparr>Method = ''POST'', URL = ''/'', Header = Map.empty, Body = ''body''\<rparr>"]
  by simp

text \<open>
  Claim C8. The decision depends on the site value, the mode value and the method alone: two
  requests that agree on the three get the same answer, whatever their targets, bodies,
  other headers and other fields are. \<^verbatim>\<open>allowed\<close> takes the request and nothing else, so
  there is no earlier request, input or random source it could depend on.
\<close>

theorem allowed_depends_on_triple_only:
  fixes r1 :: "'a Request_scheme" and r2 :: "'b Request_scheme"
  assumes "Get (Header r1) ''sec-fetch-site'' = Get (Header r2) ''sec-fetch-site''"
    and "Get (Header r1) ''sec-fetch-mode'' = Get (Header r2) ''sec-fetch-mode''"
    and "Method r1 = Method r2"
  shows "allowed r1 = allowed r2"
  using assms by (simp add: allowed_iff)

theorem allowed_depends_on_triple_only_witness:
  "allowed (testRequest ''POST'' ''cross-site'' ''cors'') =
   allowed \<lparr>Method = ''POST'', URL = ''/transfer?to=9'',
            Header = [''Sec-Fetch-Site'' \<mapsto> [''cross-site'', ''same-origin''],
                      ''Sec-Fetch-Mode'' \<mapsto> [''cors''],
                      ''Cookie'' \<mapsto> [''id=1'']],
            Body = ''amount=3''\<rparr>"
proof (rule allowed_depends_on_triple_only)
  show "Get (Header (testRequest ''POST'' ''cross-site'' ''cors'')) ''sec-fetch-site'' =
        Get (Header \<lparr>Method = ''POST'', URL = ''/transfer?to=9'',
            Header = [''Sec-Fetch-Site'' \<mapsto> [''cross-site'', ''same-origin''],
                      ''Sec-Fetch-Mode'' \<mapsto> [''cors''],
                      ''Cookie'' \<mapsto> [''id=1'']],
            Body = ''amount=3''\<rparr>) ''sec-fetch-site''"
    unfolding testRequest_site by (simp add: Get_site)
  show "Get (Header (testRequest ''POST'' ''cross-site'' ''cors'')) ''sec-fetch-mode'' =
        Get (Header \<lparr>Method = ''POST'', URL = ''/transfer?to=9'',
            Header = [''Sec-Fetch-Site'' \<mapsto> [''cross-site'', ''same-origin''],
                      ''Sec-Fetch-Mode'' \<mapsto> [''cors''],
                      ''Cookie'' \<mapsto> [''id=1'']],
            Body = ''amount=3''\<rparr>) ''sec-fetch-mode''"
    unfolding testRequest_mode by (simp add: Get_mode)
  show "Method (testRequest ''POST'' ''cross-site'' ''cors'') =
        Method \<lparr>Method = ''POST'', URL = ''/transfer?to=9'',
            Header = [''Sec-Fetch-Site'' \<mapsto> [''cross-site'', ''same-origin''],
                      ''Sec-Fetch-Mode'' \<mapsto> [''cors''],
                      ''Cookie'' \<mapsto> [''id=1'']],
            Body = ''amount=3''\<rparr>"
    by (simp add: testRequest_Method)
qed

text \<open>
  Claim C10. The site value is compared byte for byte. A value that is \<^verbatim>\<open>none\<close>,
  \<^verbatim>\<open>same-site\<close> or \<^verbatim>\<open>same-origin\<close> up to letter case, but not exactly, misses the first
  rule and is handled as cross-site: the request is allowed if and only if the mode is exactly
  \<^verbatim>\<open>navigate\<close> and the method exactly \<^verbatim>\<open>GET\<close>.
\<close>

theorem allowed_site_case_sensitive:
  assumes "map toLowerByte (Get (Header r) ''sec-fetch-site'') \<in>
             {''none'', ''same-site'', ''same-origin''}"
    and "Get (Header r) ''sec-fetch-site'' \<notin> {''none'', ''same-site'', ''same-origin''}"
  shows "allowed r \<longleftrightarrow> Get (Header r) ''sec-fetch-mode'' = ''navigate'' \<and> Method r = ''GET''"
proof -
  from assms(1) have "Get (Header r) ''sec-fetch-site'' \<noteq> []"
    by auto
  with assms(2) have "Get (Header r) ''sec-fetch-site'' \<notin> permissiveSites"
    by (simp add: permissiveSites_def)
  then show ?thesis
    by (simp add: allowed_iff)
qed

theorem allowed_site_case_sensitive_witness:
  "\<not> allowed (testRequest ''POST'' ''SAME-ORIGIN'' ''cors'') \<and>
   \<not> allowed (testRequest ''GET'' ''None'' ''Navigate'') \<and>
   \<not> allowed (testRequest ''get'' ''Same-Site'' ''navigate'') \<and>
   allowed (testRequest ''GET'' ''None'' ''navigate'')"
proof -
  have lower: "map toLowerByte ''SAME-ORIGIN'' = ''same-origin''"
    "map toLowerByte ''None'' = ''none''"
    "map toLowerByte ''Same-Site'' = ''same-site''"
    by code_simp+
  have "\<not> allowed (testRequest ''POST'' ''SAME-ORIGIN'' ''cors'')"
    using allowed_site_case_sensitive [of "testRequest ''POST'' ''SAME-ORIGIN'' ''cors''"]
    unfolding testRequest_site testRequest_mode testRequest_Method lower by simp
  moreover have "\<not> allowed (testRequest ''GET'' ''None'' ''Navigate'')"
    using allowed_site_case_sensitive [of "testRequest ''GET'' ''None'' ''Navigate''"]
    unfolding testRequest_site testRequest_mode testRequest_Method lower by simp
  moreover have "\<not> allowed (testRequest ''get'' ''Same-Site'' ''navigate'')"
    using allowed_site_case_sensitive [of "testRequest ''get'' ''Same-Site'' ''navigate''"]
    unfolding testRequest_site testRequest_mode testRequest_Method lower by simp
  moreover have "allowed (testRequest ''GET'' ''None'' ''navigate'')"
    using allowed_site_case_sensitive [of "testRequest ''GET'' ''None'' ''navigate''"]
    unfolding testRequest_site testRequest_mode testRequest_Method lower by simp
  ultimately show ?thesis by simp
qed

subsection \<open>Properties of the wrappers\<close>

lemma ServeHTTP_ProtectHandler:
  "ServeHTTP (ProtectHandler h) w r s =
     (if allowed r then ServeHTTP h w r s
      else Write w (''Invalid resource access'' @ [CHR 0x0A]) (WriteHeader w 403 s))"
  by (simp add: ProtectHandler_def HandlerFunc_def Fprintln_def StatusForbidden_def)

lemma ServeHTTP_ProtectHandlerLogOnly:
  "ServeHTTP (ProtectHandlerLogOnly h rl) w r s =
     ServeHTTP h w r (if allowed r then s else LogRequest rl r s)"
  by (simp add: ProtectHandlerLogOnly_def HandlerFunc_def)

lemma ServeHTTP_recordingHandler: "ServeHTTP recordingHandler w r t = t @ [ServeHTTPCall r]"
  by (simp add: recordingHandler_def HandlerFunc_def)

lemma ServeHTTP_testHandler: "ServeHTTP testHandler w r s = Write w ''User Data'' s"
  by (simp add: testHandler_def HandlerFunc_def)

lemma recordingWriter_simps:
  "WriteHeader recordingWriter code t = t @ [WriteHeaderCall code]"
  "Write recordingWriter b t = t @ [WriteCall b]"
  by (simp_all add: recordingWriter_def)

lemma LogRequest_recordingLogger: "LogRequest recordingLogger r t = t @ [LogRequestCall r]"
  by (simp add: recordingLogger_def)

text \<open>
  Claim C4. The handler made by \<^verbatim>\<open>ProtectHandler\<close> writes status 403 and the fixed line
  \<^verbatim>\<open>Invalid resource access\<close> ended by a newline, and returns without calling the wrapped
  handler, exactly when \<^verbatim>\<open>allowed\<close> is false. On a denied request the outcome is the same
  for every wrapped handler, so nothing of the wrapped handler's output reaches the response;
  on an allowed request the only call made is the one to the wrapped handler.
\<close>

theorem ProtectHandler_denies_with_403:
  "(\<not> allowed r \<longrightarrow>
      ServeHTTP (ProtectHandler h) w r s =
        Write w (''Invalid resource access'' @ [CHR 0x0A]) (WriteHeader w 403 s) \<and>
      ServeHTTP (ProtectHandler h) w r s = ServeHTTP (ProtectHandler h') w r s) \<and>
   (ServeHTTP (ProtectHandler recordingHandler) recordingWriter r t =
      t @ [WriteHeaderCall 403, WriteCall (''Invalid resource access'' @ [CHR 0x0A])]
    \<longleftrightarrow> \<not> allowed r) \<and>
   (allowed r \<longrightarrow>
      ServeHTTP (ProtectHandler recordingHandler) recordingWriter r t = t @ [ServeHTTPCall r])"
  by (simp add: ServeHTTP_ProtectHandler ServeHTTP_recordingHandler recordingWriter_simps)

theorem ProtectHandler_denies_with_403_witness:
  "\<not> allowed (testRequest ''POST'' ''cross-site'' ''cors'') \<and>
   ServeHTTP (ProtectHandler recordingHandler) recordingWriter
     (testRequest ''POST'' ''cross-site'' ''cors'') [] =
     [WriteHeaderCall 403, WriteCall (''Invalid resource access'' @ [CHR 0x0A])] \<and>
   ServeHTTP (ProtectHandler testHandler) recordingWriter
     (testRequest ''POST'' ''cross-site'' ''cors'') [] =
   ServeHTTP (ProtectHandler recordingHandler) recordingWriter
     (testRequest ''POST'' ''cross-site'' ''cors'') [] \<and>
   allowed (testRequest ''POST'' ''same-site'' ''cors'') \<and>
   ServeHTTP (ProtectHandler recordingHandler) recordingWriter
     (testRequest ''POST'' ''same-site'' ''cors'') [] =
     [ServeHTTPCall (testRequest ''POST'' ''same-site'' ''cors'')]"
proof -
  have denied: "\<not> allowed (testRequest ''POST'' ''cross-site'' ''cors'')"
    by (simp add: allowed_testRequest permissiveSites_def)
  have accepted: "allowed (testRequest ''POST'' ''same-site'' ''cors'')"
    by (simp add: allowed_testRequest permissiveSites_def)
  note on_deny = ProtectHandler_denies_with_403
      [of "testRequest ''POST'' ''cross-site'' ''cors''" testHandler recordingWriter
          "[]" recordingHandler "[]", unfolded append_Nil]
  note on_allow = ProtectHandler_denies_with_403
      [of "testRequest ''POST'' ''same-site'' ''cors''" testHandler recordingWriter
          "[]" recordingHandler "[]", unfolded append_Nil]
  from on_deny on_allow denied accepted show ?thesis by blast
qed

text \<open>
  Claim C9. On a request that \<^verbatim>\<open>allowed\<close> accepts, the handler made by \<^verbatim>\<open>ProtectHandler\<close>
  does nothing but call the wrapped handler with the same response writer and the same request:
  the resulting state is the wrapped handler's, and the wrapper itself makes no call on the
  response writer.
\<close>

theorem ProtectHandler_allow_passes_through:
  assumes "allowed r"
  shows "ServeHTTP (ProtectHandler h) w r s = ServeHTTP h w r s \<and>
         ServeHTTP (ProtectHandler recordingHandler) recordingWriter r t = t @ [ServeHTTPCall r]"
  using assms by (simp add: ServeHTTP_ProtectHandler ServeHTTP_recordingHandler)

theorem ProtectHandler_allow_passes_through_witness:
  "allowed (testRequest ''GET'' ''cross-site'' ''navigate'') \<and>
   ServeHTTP (ProtectHandler recordingHandler) recordingWriter
     (testRequest ''GET'' ''cross-site'' ''navigate'') [] =
     [ServeHTTPCall (testRequest ''GET'' ''cross-site'' ''navigate'')]"
proof -
  have a: "allowed (testRequest ''GET'' ''cross-site'' ''navigate'')"
    by (simp add: allowed_testRequest)
  note spec = ProtectHandler_allow_passes_through
      [OF a, of recordingHandler recordingWriter "[]" "[]", unfolded append_Nil]
  from spec a show ?thesis by blast
qed

text \<open>
  Claim C5. The handler made by \<^verbatim>\<open>ProtectHandlerLogOnly\<close> always calls the wrapped handler
  with the same response writer and the same request and makes no call on the response writer
  itself, so the response is the wrapped handler's whatever the decision is. Before that call
  it calls \<^verbatim>\<open>LogRequest\<close> with the request once when \<^verbatim>\<open>allowed\<close> is false, and not at all
  when it is true.
\<close>

theorem ProtectHandlerLogOnly_forwards_and_logs:
  "ServeHTTP (ProtectHandlerLogOnly h rl) w r s =
     ServeHTTP h w r (if allowed r then s else LogRequest rl r s) \<and>
   ServeHTTP (ProtectHandlerLogOnly recordingHandler recordingLogger) recordingWriter r t =
     t @ (if allowed r then [] else [LogRequestCall r]) @ [ServeHTTPCall r] \<and>
   count_list (ServeHTTP (ProtectHandlerLogOnly recordingHandler recordingLogger)
                 recordingWriter r []) (LogRequestCall r) = (if allowed r then 0 else 1) \<and>
   count_list (ServeHTTP (ProtectHandlerLogOnly recordingHandler recordingLogger)
                 recordingWriter r []) (ServeHTTPCall r) = 1 \<and>
   ((\<forall>s. view (LogRequest rl r s) = view s) \<longrightarrow>
    (\<forall>s s'. view s = view s' \<longrightarrow> view (ServeHTTP h w r s) = view (ServeHTTP h w r s')) \<longrightarrow>
    view (ServeHTTP (ProtectHandlerLogOnly h rl) w r s) = view (ServeHTTP h w r s))"
proof (intro conjI impI)
  show "ServeHTTP (ProtectHandlerLogOnly h rl) w r s =
     ServeHTTP h w r (if allowed r then s else LogRequest rl r s)"
    by (rule ServeHTTP_ProtectHandlerLogOnly)
next
  show "ServeHTTP (ProtectHandlerLogOnly recordingHandler recordingLogger) recordingWriter r t =
     t @ (if allowed r then [] else [LogRequestCall r]) @ [ServeHTTPCall r]"
    by (simp add: ServeHTTP_ProtectHandlerLogOnly ServeHTTP_recordingHandler
        LogRequest_recordingLogger)
next
  show "count_list (ServeHTTP (ProtectHandlerLogOnly recordingHandler recordingLogger)
                 recordingWriter r []) (LogRequestCall r) = (if allowed r then 0 else 1)"
    by (simp add: ServeHTTP_ProtectHandlerLogOnly ServeHTTP_recordingHandler
        LogRequest_recordingLogger)
next
  show "count_list (ServeHTTP (ProtectHandlerLogOnly recordingHandler recordingLogger)
                 recordingWriter r []) (ServeHTTPCall r) = 1"
    by (simp add: ServeHTTP_ProtectHandlerLogOnly ServeHTTP_recordingHandler
        LogRequest_recordingLogger)
next
  assume logger_frame: "\<forall>s. view (LogRequest rl r s) = view s"
    and handler_frame:
      "\<forall>s s'. view s = view s' \<longrightarrow> view (ServeHTTP h w r s) = view (ServeHTTP h w r s')"
  show "view (ServeHTTP (ProtectHandlerLogOnly h rl) w r s) = view (ServeHTTP h w r s)"
  proof (cases "allowed r")
    case True
    then show ?thesis by (simp add: ServeHTTP_ProtectHandlerLogOnly)
  next
    case False
    from logger_frame have "view (LogRequest rl r s) = view s" by blast
    with handler_frame
    have "view (ServeHTTP h w r (LogRequest rl r s)) = view (ServeHTTP h w r s)" by blast
    with False show ?thesis by (simp add: ServeHTTP_ProtectHandlerLogOnly)
  qed
qed

theorem ProtectHandlerLogOnly_forwards_and_logs_witness:
  "ServeHTTP (ProtectHandlerLogOnly recordingHandler recordingLogger) recordingWriter
     (testRequest ''POST'' ''cross-site'' ''cors'') [] =
     [LogRequestCall (testRequest ''POST'' ''cross-site'' ''cors''),
      ServeHTTPCall (testRequest ''POST'' ''cross-site'' ''cors'')] \<and>
   ServeHTTP (ProtectHandlerLogOnly recordingHandler recordingLogger) recordingWriter
     (testRequest ''POST'' ''same-origin'' ''cors'') [] =
     [ServeHTTPCall (testRequest ''POST'' ''same-origin'' ''cors'')] \<and>
   response (ServeHTTP (ProtectHandlerLogOnly testHandler recordingLogger) recordingWriter
     (testRequest ''POST'' ''cross-site'' ''cors'') []) = [WriteCall ''User Data'']"
proof -
  have logger_frame:
    "\<forall>s. response (LogRequest recordingLogger (testRequest ''POST'' ''cross-site'' ''cors'') s)
         = response s"
    by (simp add: response_def LogRequest_recordingLogger)
  have handler_frame:
    "\<forall>s s'. response s = response s' \<longrightarrow>
       response (ServeHTTP testHandler recordingWriter
                   (testRequest ''POST'' ''cross-site'' ''cors'') s) =
       response (ServeHTTP testHandler recordingWriter
                   (testRequest ''POST'' ''cross-site'' ''cors'') s')"
    by (simp add: response_def ServeHTTP_testHandler recordingWriter_simps)
  have "response (ServeHTTP (ProtectHandlerLogOnly testHandler recordingLogger) recordingWriter
          (testRequest ''POST'' ''cross-site'' ''cors'') []) =
        response (ServeHTTP testHandler recordingWriter
          (testRequest ''POST'' ''cross-site'' ''cors'') [])"
    using ProtectHandlerLogOnly_forwards_and_logs
          [of testHandler recordingLogger recordingWriter
              "testRequest ''POST'' ''cross-site'' ''cors''" "[]" "[]" response]
      logger_frame handler_frame
    by blast
  then have user_data:
    "response (ServeHTTP (ProtectHandlerLogOnly testHandler recordingLogger) recordingWriter
       (testRequest ''POST'' ''cross-site'' ''cors'') []) = [WriteCall ''User Data'']"
    by (simp add: response_def ServeHTTP_testHandler recordingWriter_simps)
  have denied: "\<not> allowed (testRequest ''POST'' ''cross-site'' ''cors'')"
    by (simp add: allowed_testRequest permissiveSites_def)
  have accepted: "allowed (testRequest ''POST'' ''same-origin'' ''cors'')"
    by (simp add: allowed_testRequest permissiveSites_def)
  have "ServeHTTP (ProtectHandlerLogOnly recordingHandler recordingLogger) recordingWriter
          (testRequest ''POST'' ''cross-site'' ''cors'') [] =
        [] @ (if allowed (testRequest ''POST'' ''cross-site'' ''cors'') then []
              else [LogRequestCall (testRequest ''POST'' ''cross-site'' ''cors'')]) @
        [ServeHTTPCall (testRequest ''POST'' ''cross-site'' ''cors'')]"
    using ProtectHandlerLogOnly_forwards_and_logs
          [of recordingHandler recordingLogger recordingWriter
              "testRequest ''POST'' ''cross-site'' ''cors''" "[]" "[]"]
    by blast
  moreover
  have "ServeHTTP (ProtectHandlerLogOnly recordingHandler recordingLogger) recordingWriter
          (testRequest ''POST'' ''same-origin'' ''cors'') [] =
        [] @ (if allowed (testRequest ''POST'' ''same-origin'' ''cors'') then []
              else [LogRequestCall (testRequest ''POST'' ''same-origin'' ''cors'')]) @
        [ServeHTTPCall (testRequest ''POST'' ''same-origin'' ''cors'')]"
    using ProtectHandlerLogOnly_forwards_and_logs
          [of recordingHandler recordingLogger recordingWriter
              "testRequest ''POST'' ''same-origin'' ''cors''" "[]" "[]"]
    by blast
  ultimately show ?thesis
    using denied accepted user_data by simp
qed

end
